theory Spec2Isabelle
  imports Main "HOL-Library.Sublist"
begin

section \<open>JavaScript values\<close>

text \<open>
  The helpers of \<^verbatim>\<open>src/index.js\<close> are dynamically typed: a descriptor property may
  hold any value, is tested for truthiness, compared with \<^verbatim>\<open>===\<close> and interpolated
  into markup. The values are modelled by the primitives and by opaque object
  references. Numbers are the integers and NaN (fractions, infinities and the
  exponent notation of very large numbers are outside the model). An object, array
  or function reference is its identity together with the text its
  \<^verbatim>\<open>toString()\<close> gives.
\<close>

datatype jsval =
    JUndefined
  | JNull
  | JBool bool
  | JNum int
  | JNaN
  | JStr string
  | JObj nat string

text \<open>Truthiness: what \<^verbatim>\<open>!!v\<close>, \<^verbatim>\<open>if (v)\<close>, \<^verbatim>\<open>v && ...\<close> and \<^verbatim>\<open>v || ...\<close> test.\<close>

fun truthy :: "jsval \<Rightarrow> bool" where
  "truthy JUndefined = False"
| "truthy JNull = False"
| "truthy (JBool b) = b"
| "truthy (JNum n) = (n \<noteq> 0)"
| "truthy JNaN = False"
| "truthy (JStr s) = (s \<noteq> [])"
| "truthy (JObj i s) = True"

text \<open>\<^verbatim>\<open>a || b\<close>: the left operand when it is truthy, the right one otherwise.\<close>

definition js_or :: "jsval \<Rightarrow> jsval \<Rightarrow> jsval" where
  "js_or a b = (if truthy a then a else b)"

text \<open>\<^verbatim>\<open>a === b\<close>: NaN equals nothing, objects are compared by identity.\<close>

fun strict_equals :: "jsval \<Rightarrow> jsval \<Rightarrow> bool" where
  "strict_equals JNaN b = False"
| "strict_equals (JObj i s) (JObj j t) = (i = j)"
| "strict_equals a b = (a = b)"

text \<open>Decimal notation of a natural number.\<close>

function string_of_nat :: "nat \<Rightarrow> string" where
  "string_of_nat n =
     (if n < 10 then [''0123456789'' ! n]
      else string_of_nat (n div 10) @ [''0123456789'' ! (n mod 10)])"
  by pat_completeness auto
termination
  by (relation "measure (\<lambda>n. n)") auto

text \<open>The string conversion of a template literal's \<^verbatim>\<open>${...}\<close> and of \<^verbatim>\<open>+\<close> with a string.\<close>

fun ToString :: "jsval \<Rightarrow> string" where
  "ToString JUndefined = ''undefined''"
| "ToString JNull = ''null''"
| "ToString (JBool b) = (if b then ''true'' else ''false'')"
| "ToString (JNum n) = (if n < 0 then ''-'' @ string_of_nat (nat (- n)) else string_of_nat (nat n))"
| "ToString JNaN = ''NaN''"
| "ToString (JStr s) = s"
| "ToString (JObj i s) = s"

text \<open>A default of a destructured parameter replaces \<^verbatim>\<open>undefined\<close> only.\<close>

definition default_to :: "jsval \<Rightarrow> jsval \<Rightarrow> jsval" where
  "default_to d v = (if v = JUndefined then d else v)"

section \<open>Promises, the document and the dialog widget\<close>

text \<open>
  A promise is modelled by what it settles with; \<open>Pending\<close> is a promise that
  never settles. A rejection carries the string handed to \<^verbatim>\<open>Promise.reject\<close>,
  the message of a thrown \<^verbatim>\<open>Error\<close>, the \<^verbatim>\<open>TypeError\<close> of a property read on
  \<^verbatim>\<open>null\<close> or \<^verbatim>\<open>undefined\<close>, or the value an adopted thenable rejects with.
\<close>

datatype reason =
    Reason_String string
  | Thrown_Error string
  | Thrown_TypeError
  | Reason_Value jsval

datatype 'a promise = Resolved 'a | Rejected reason | Pending

text \<open>A form element, as far as the helpers read it: its \<^verbatim>\<open>.value\<close>.\<close>

record element =
  el_value :: jsval

text \<open>The document maps an element id to the element carrying it.\<close>

type_synonym document = "string \<Rightarrow> element option"

definition getElementById :: "document \<Rightarrow> jsval \<Rightarrow> element option" where
  "getElementById doc v = doc (ToString v)"

text \<open>
  The outcome object \<^verbatim>\<open>{ value?, dismiss? }\<close> a dialog resolves with; an absent
  property reads as \<^verbatim>\<open>undefined\<close>. A \<^verbatim>\<open>null\<close> outcome is \<open>None\<close>.
\<close>

record outcome =
  out_value :: jsval
  out_dismiss :: jsval

text \<open>
  What the pre-confirmation hook resolves with: the argument it was called with,
  handed back, or the freshly built \<^verbatim>\<open>returnData\<close> object (property name to value).
\<close>

datatype hook_value =
    Passthrough jsval
  | ReturnData "string \<Rightarrow> jsval option"

text \<open>
  The hook runs against the live document and the widget's validation-error
  display (\<open>None\<close> when no error is shown), and returns the display it leaves.
\<close>

type_synonym hook =
  "jsval \<Rightarrow> document \<Rightarrow> string option \<Rightarrow> hook_value promise \<times> string option"

text \<open>
  The configuration object handed to \<^verbatim>\<open>sweetalert2(...)\<close>. A key that a caller
  leaves out is \<^verbatim>\<open>undefined\<close>. The \<^verbatim>\<open>onOpen\<close> callback is modelled by the id of
  the element it focuses in a document, if any.
\<close>

record swal_config =
  swal_titleText :: jsval
  swal_text :: jsval
  swal_type :: jsval
  swal_confirmButtonText :: jsval
  swal_cancelButtonText :: jsval
  swal_showCancelButton :: jsval
  swal_showCloseButton :: jsval
  swal_html :: jsval
  swal_onOpen :: "(document \<Rightarrow> string option) option"
  swal_preConfirm :: "hook option"

definition no_config :: swal_config where
  "no_config =
     \<lparr> swal_titleText = JUndefined, swal_text = JUndefined, swal_type = JUndefined,
       swal_confirmButtonText = JUndefined, swal_cancelButtonText = JUndefined,
       swal_showCancelButton = JUndefined, swal_showCloseButton = JUndefined,
       swal_html = JUndefined, swal_onOpen = None, swal_preConfirm = None \<rparr>"

text \<open>
  The state the helpers act on: the dialogs opened so far, whether an overlay is
  shown, and whether the default action of the originating event was suppressed.
\<close>

record world =
  opened :: "swal_config list"
  visible :: bool
  defaultPrevented :: bool

definition sweetalert2 :: "swal_config \<Rightarrow> world \<Rightarrow> world" where
  "sweetalert2 cfg w = w\<lparr> opened := opened w @ [cfg], visible := True \<rparr>"

definition sweetalert2_close :: "world \<Rightarrow> world" where
  "sweetalert2_close w = w\<lparr> visible := False \<rparr>"

section \<open>Loading notice\<close>

text \<open>
  \<^verbatim>\<open>showDismissableLoadingNotice({ titleText, buttonText } = {})\<close>; the promise of
  the dialog settles with the outcome \<open>answer\<close> the widget produces.
\<close>

definition showDismissableLoadingNotice ::
  "jsval \<Rightarrow> jsval \<Rightarrow> outcome option \<Rightarrow> world \<Rightarrow> outcome option promise \<times> world" where
  "showDismissableLoadingNotice titleText buttonText answer w =
     (Resolved answer,
      sweetalert2
        (no_config\<lparr>
           swal_titleText := js_or titleText (JStr ''Loading...''),
           swal_confirmButtonText := js_or buttonText (JStr ''Continue loading in background''),
           swal_showCloseButton := JBool True \<rparr>) w)"

text \<open>
  What a thenable does once its \<^verbatim>\<open>then\<close> is called: it fulfils with a value
  (itself no thenable), rejects with a value, or never calls back.
\<close>

datatype fate = Fulfils jsval | Rejects jsval | Never_settles

text \<open>
  The argument of \<^verbatim>\<open>hideDismissableLoadingNotice\<close>: a value with no callable
  \<^verbatim>\<open>then\<close> property (a primitive or an ordinary object), or a thenable (a promise,
  or any object with a \<^verbatim>\<open>then\<close> method), given by the object and its fate.
\<close>

datatype payload = Value jsval | Thenable jsval fate

text \<open>
  \<^verbatim>\<open>Promise.resolve(sweetalert2.close()).then(() => data)\<close>. The overlay is closed
  at once. The promise returned by \<^verbatim>\<open>then\<close> is resolved with what the callback
  returns: a value that is no thenable fulfils it, a thenable is adopted and the
  promise settles as the thenable does.
\<close>

definition hideDismissableLoadingNotice :: "payload \<Rightarrow> world \<Rightarrow> jsval promise \<times> world" where
  "hideDismissableLoadingNotice data w =
     (case data of
        Value v \<Rightarrow> Resolved v
      | Thenable obj (Fulfils v) \<Rightarrow> Resolved v
      | Thenable obj (Rejects r) \<Rightarrow> Rejected (Reason_Value r)
      | Thenable obj Never_settles \<Rightarrow> Pending,
      sweetalert2_close w)"

section \<open>Confirmation prompt\<close>

text \<open>
  The originating event: none, an object without a \<^verbatim>\<open>preventDefault\<close> method, or
  one with it.
\<close>

datatype event = NoEvent | EventPlain | EventPreventable

record sure_options =
  so_ev :: event
  so_titleText :: jsval
  so_type :: jsval
  so_text :: jsval
  so_confirmButtonText :: jsval
  so_cancelButtonText :: jsval
  so_showCancelButton :: jsval
  so_showCloseButton :: jsval
  so_returnBool :: jsval

datatype sure_value = AsBool bool | RawResult "outcome option"

definition promptAreYouSureBefore ::
  "sure_options \<Rightarrow> outcome option \<Rightarrow> world \<Rightarrow> sure_value promise \<times> world" where
  "promptAreYouSureBefore opts answer w =
     (let titleText = default_to (JStr ''Are you sure?'') (so_titleText opts);
          type = default_to (JStr ''warning'') (so_type opts);
          text = default_to (JStr ''This action is irreversible!'') (so_text opts);
          confirmButtonText = default_to (JStr ''Yes'') (so_confirmButtonText opts);
          cancelButtonText = default_to (JStr ''Cancel'') (so_cancelButtonText opts);
          showCancelButton = default_to (JBool True) (so_showCancelButton opts);
          showCloseButton = default_to (JBool False) (so_showCloseButton opts);
          returnBool = default_to (JBool False) (so_returnBool opts);
          w1 = (case so_ev opts of
                  EventPreventable \<Rightarrow> w\<lparr> defaultPrevented := True \<rparr>
                | _ \<Rightarrow> w);
          w2 = sweetalert2
                 (no_config\<lparr>
                    swal_titleText := titleText,
                    swal_text := text,
                    swal_type := type,
                    swal_confirmButtonText := confirmButtonText,
                    swal_cancelButtonText := cancelButtonText,
                    swal_showCancelButton := showCancelButton,
                    swal_showCloseButton := showCloseButton \<rparr>) w1
      in (Resolved
            (if truthy returnBool
             then AsBool (case answer of
                            None \<Rightarrow> False
                          | Some result \<Rightarrow> \<not> truthy (out_dismiss result) \<and> truthy (out_value result))
             else RawResult answer),
          w2))"

section \<open>Input prompt: descriptors and the field renderer\<close>

text \<open>One entry of a select descriptor's \<^verbatim>\<open>options\<close>.\<close>

record select_option =
  opt_value :: jsval
  opt_name :: jsval
  opt_disabled :: jsval

text \<open>
  \<^verbatim>\<open>formatValue\<close> is either a function from the raw field value, or some other
  value (\<^verbatim>\<open>undefined\<close> when unset); only the former satisfies
  \<^verbatim>\<open>input.formatValue && typeof input.formatValue === 'function'\<close>.
\<close>

datatype format_value = FormatFunction "jsval \<Rightarrow> jsval" | FormatOther jsval

text \<open>
  An input descriptor. An unset property is \<^verbatim>\<open>undefined\<close>; unset \<^verbatim>\<open>options\<close>
  are \<open>None\<close>.
\<close>

record descriptor =
  in_id :: jsval
  in_name :: jsval
  in_fieldName :: jsval
  in_formatValue :: format_value
  in_type :: jsval
  in_placeholder :: jsval
  in_value :: jsval
  in_maxLength :: jsval
  in_label :: jsval
  in_disabled :: jsval
  in_cols :: jsval
  in_rows :: jsval
  in_options :: "select_option list option"

text \<open>
  \<^verbatim>\<open>getInputHtmlforPrompt(input)\<close>. The local \<^verbatim>\<open>label\<close> is declared without a
  value and assigned only when \<^verbatim>\<open>input.label\<close> is truthy; the three templates
  interpolate it in either case.
\<close>

definition getInputHtmlforPrompt :: "descriptor \<Rightarrow> string" where
  \<open>getInputHtmlforPrompt input =
     (let inputDisabled = (if truthy (in_disabled input) then ''disabled'' else '''');
          label =
            (if truthy (in_label input)
             then JStr (''\<newline>      <p class="marg-top-20">\<newline>        <label htmlFor="'' @
                        ToString (js_or (in_id input) (JStr '''')) @
                        ''">'' @
                        ToString (in_label input) @
                        ''</label>\<newline>      </p>\<newline>    '')
             else JUndefined)
      in if strict_equals (in_type input) (JStr ''textarea'') then
           ''\<newline>      '' @
           ToString label @
           ''\<newline>      <p>\<newline>        <textarea\<newline>          type="'' @
           ToString (in_type input) @
           ''"\<newline>          name="'' @
           ToString (in_name input) @
           ''"\<newline>          id="'' @
           ToString (in_id input) @
           ''"\<newline>          cols="'' @
           ToString (js_or (in_cols input) (JNum 5)) @
           ''"\<newline>          rows="'' @
           ToString (js_or (in_rows input) (JNum 5)) @
           ''"\<newline>          '' @
           inputDisabled @
           ''\<newline>        />'' @
           ToString (in_value input) @
           ''</textarea>\<newline>      </p>\<newline>    ''
         else if strict_equals (in_type input) (JStr ''select'') then
           (let options =
                  concat (map (\<lambda>option.
                      let optionSelected =
                            (if strict_equals (in_value input) (opt_value option)
                             then ''selected'' else '''');
                          optionDisabled =
                            (if truthy (opt_disabled option) then ''disabled'' else '''')
                      in ''<option\<newline>          value="'' @
                         ToString (js_or (opt_value option) (JStr '''')) @
                         ''"\<newline>          '' @
                         optionSelected @
                         ''\<newline>          '' @
                         optionDisabled @
                         ''\<newline>        >\<newline>          '' @
                         ToString (js_or (js_or (opt_name option) (opt_value option)) (JStr '''')) @
                         ''\<newline>        </option>'')
                    (case in_options input of None \<Rightarrow> [] | Some os \<Rightarrow> os))
            in ''\<newline>      '' @
               ToString label @
               ''\<newline>      <p>\<newline>        <select\<newline>          type="'' @
               ToString (in_type input) @
               ''"\<newline>          name="'' @
               ToString (in_name input) @
               ''"\<newline>          id="'' @
               ToString (in_id input) @
               ''"\<newline>          value="'' @
               ToString (in_value input) @
               ''"\<newline>          '' @
               inputDisabled @
               ''\<newline>        />'' @
               options @
               ''</select>\<newline>      </p>\<newline>    '')
         else
           ''\<newline>    '' @
           ToString label @
           ''\<newline>    <p>\<newline>      <input\<newline>        type="'' @
           ToString (in_type input) @
           ''"\<newline>        name="'' @
           ToString (in_name input) @
           ''"\<newline>        id="'' @
           ToString (in_id input) @
           ''"\<newline>        placeholder="'' @
           ToString (in_placeholder input) @
           ''"\<newline>        value="'' @
           ToString (in_value input) @
           ''"\<newline>        maxlength="'' @
           ToString (in_maxLength input) @
           ''"\<newline>        '' @
           inputDisabled @
           ''\<newline>      />\<newline>    </p>\<newline>  '')\<close>

section \<open>Input prompt: the pre-confirmation hook\<close>

record validation =
  v_id :: jsval
  v_name :: jsval
  v_validate :: "element \<Rightarrow> jsval"
  v_messageOnFail :: jsval

text \<open>
  The \<^verbatim>\<open>for\<close> loop over \<^verbatim>\<open>validations\<close>, from index \<open>i\<close> with the messages
  pushed so far.
\<close>

function validation_loop ::
  "validation list \<Rightarrow> document \<Rightarrow> nat \<Rightarrow> jsval list \<Rightarrow> jsval list" where
  "validation_loop validations doc i errors =
     (if i < length validations then
        (let validation = validations ! i;
             input = getElementById doc (v_id validation)
         in case input of
              None \<Rightarrow>
                validation_loop validations doc (i + 1)
                  (errors @ [JStr (''Field '' @
                                   ToString (js_or (v_name validation) (JStr '''')) @
                                   '' must not be empty.'' @ [CHR 0x0D, CHR 0x0A])])
            | Some el \<Rightarrow>
                if \<not> truthy (v_validate validation el)
                then validation_loop validations doc (i + 1) (errors @ [v_messageOnFail validation])
                else validation_loop validations doc (i + 1) errors)
      else errors)"
  by pat_completeness auto
termination
  by (relation "measure (\<lambda>(validations, doc, i, errors). length validations - i)") auto

text \<open>\<^verbatim>\<open>errors.join('')\<close>: \<^verbatim>\<open>undefined\<close> and \<^verbatim>\<open>null\<close> entries join as the empty string.\<close>

definition js_join :: "jsval list \<Rightarrow> string" where
  "js_join errors =
     concat (map (\<lambda>e. if e = JUndefined \<or> e = JNull then [] else ToString e) errors)"

text \<open>
  The \<^verbatim>\<open>inputs.map(...)\<close> callback run over the entries in order, updating
  \<^verbatim>\<open>returnData\<close>. Reading \<^verbatim>\<open>.id\<close> of a \<^verbatim>\<open>null\<close> entry, or \<^verbatim>\<open>.value\<close> of an
  element that is not in the document, throws. The map holds the own properties
  of \<^verbatim>\<open>returnData\<close>: an assignment to the key \<^verbatim>\<open>__proto__\<close> goes to the inherited
  setter and stores none.
\<close>

fun collect_returnData ::
  "descriptor option list \<Rightarrow> document \<Rightarrow> (string \<Rightarrow> jsval option)
     \<Rightarrow> reason + (string \<Rightarrow> jsval option)" where
  "collect_returnData [] doc returnData = Inr returnData"
| "collect_returnData (None # rest) doc returnData = Inl Thrown_TypeError"
| "collect_returnData (Some input # rest) doc returnData =
     (case getElementById doc (in_id input) of
        None \<Rightarrow> Inl Thrown_TypeError
      | Some domInput \<Rightarrow>
          (let inputValue =
                 (case in_formatValue input of
                    FormatFunction f \<Rightarrow> f (el_value domInput)
                  | FormatOther v \<Rightarrow> el_value domInput);
               key = ToString (js_or (in_fieldName input) (in_name input))
           in collect_returnData rest doc
                (if key = ''__proto__'' then returnData else returnData(key \<mapsto> inputValue))))"

text \<open>
  \<^verbatim>\<open>getResultsAfterValidations({ inputs, validations })\<close> returns the hook. A throw
  inside the promise executor rejects the promise.
\<close>

definition getResultsAfterValidations ::
  "descriptor option list \<Rightarrow> validation list \<Rightarrow> hook" where
  "getResultsAfterValidations inputs validations =
     (\<lambda>result doc shown.
        let errors = validation_loop validations doc 0 []
        in if errors \<noteq> [] then (Resolved (Passthrough result), Some (js_join errors))
           else (case collect_returnData inputs doc Map.empty of
                   Inl e \<Rightarrow> (Rejected e, None)
                 | Inr returnData \<Rightarrow> (Resolved (ReturnData returnData), None)))"

section \<open>Input prompt\<close>

record prompt_options =
  po_titleText :: jsval
  po_html :: jsval
  po_text :: jsval
  po_inputs :: "descriptor option list option"
  po_validations :: "validation list option"

text \<open>
  \<^verbatim>\<open>_.filter(inputs, input => !!input && !!input.id && !!input.name)\<close>: the
  entries kept are descriptor objects, returned as such.
\<close>

fun validInputs_of :: "descriptor option list \<Rightarrow> descriptor list" where
  "validInputs_of [] = []"
| "validInputs_of (None # rest) = validInputs_of rest"
| "validInputs_of (Some input # rest) =
     (if truthy (in_id input) \<and> truthy (in_name input)
      then input # validInputs_of rest
      else validInputs_of rest)"

definition getPromptedUserInput ::
  "prompt_options \<Rightarrow> outcome option \<Rightarrow> world \<Rightarrow> jsval promise \<times> world" where
  "getPromptedUserInput opts answer w =
     (let titleText = default_to (JStr ''User Input Needed'') (po_titleText opts);
          html = default_to (JStr '''') (po_html opts);
          text = default_to (JStr '''') (po_text opts);
          inputs = (case po_inputs opts of None \<Rightarrow> [] | Some xs \<Rightarrow> xs);
          validations = (case po_validations opts of None \<Rightarrow> [] | Some vs \<Rightarrow> vs);
          validInputs = validInputs_of inputs
      in case validInputs of
           [] \<Rightarrow> (Rejected (Reason_String ''No valid inputs passed to getPromptedUserInput().''), w)
         | first # others \<Rightarrow>
             (let firstInputId = in_id first;
                  inputHtml =
                    ToString (js_or (js_or html text) (JStr '''')) @
                    ''<br/><br/>'' @
                    concat (map getInputHtmlforPrompt validInputs);
                  w1 = sweetalert2
                         (no_config\<lparr>
                            swal_titleText := titleText,
                            swal_type := JStr ''info'',
                            swal_confirmButtonText := JStr ''Submit'',
                            swal_cancelButtonText := JStr ''Cancel'',
                            swal_showCancelButton := JBool True,
                            swal_html := JStr inputHtml,
                            swal_onOpen :=
                              Some (\<lambda>doc. case getElementById doc firstInputId of
                                             None \<Rightarrow> None
                                           | Some input1 \<Rightarrow> Some (ToString firstInputId)),
                            swal_preConfirm :=
                              Some (getResultsAfterValidations inputs validations) \<rparr>) w
              in case answer of
                   None \<Rightarrow> (Rejected Thrown_TypeError, w1)
                 | Some result \<Rightarrow>
                     if truthy (out_dismiss result) \<or> \<not> truthy (out_value result)
                     then (Rejected (Thrown_Error ''stop-execution''), w1)
                     else (Resolved (out_value result), w1)))"

section \<open>Notions of the specification\<close>

text \<open>An entry of \<^verbatim>\<open>inputs\<close> that is a descriptor with a truthy id and a truthy name.\<close>

fun has_id_and_name :: "descriptor option \<Rightarrow> bool" where
  "has_id_and_name None = False"
| "has_id_and_name (Some d) = (truthy (in_id d) \<and> truthy (in_name d))"

text \<open>The descriptor list a call supplies; an omitted list is the empty one.\<close>

definition inputs_of :: "prompt_options \<Rightarrow> descriptor option list" where
  "inputs_of opts = (case po_inputs opts of None \<Rightarrow> [] | Some xs \<Rightarrow> xs)"

text \<open>The optional lead-in of the dialog body: the html, else the text, else nothing.\<close>

definition lead_in :: "prompt_options \<Rightarrow> string" where
  "lead_in opts =
     (if truthy (po_html opts) then ToString (po_html opts)
      else if truthy (po_text opts) then ToString (po_text opts)
      else [])"

text \<open>
  The messages one rule contributes on a confirmation attempt: the generated
  message when its target element is absent, its \<^verbatim>\<open>messageOnFail\<close> when
  \<^verbatim>\<open>validate(element)\<close> is falsy, none otherwise.
\<close>

definition rule_messages :: "document \<Rightarrow> validation \<Rightarrow> jsval list" where
  "rule_messages doc rule =
     (case doc (ToString (v_id rule)) of
        None \<Rightarrow>
          [JStr (''Field '' @
                 (if truthy (v_name rule) then ToString (v_name rule) else []) @
                 '' must not be empty.'' @ [CHR 0x0D, CHR 0x0A])]
      | Some el \<Rightarrow> if truthy (v_validate rule el) then [] else [v_messageOnFail rule])"

text \<open>
  The text the three field templates put in the label position: the label block
  when the label is truthy, and the conversion of the unassigned local otherwise.
\<close>

definition label_text :: "descriptor \<Rightarrow> string" where
  \<open>label_text input =
     (if truthy (in_label input)
      then ''\<newline>      <p class="marg-top-20">\<newline>        <label htmlFor="'' @
           (if truthy (in_id input) then ToString (in_id input) else []) @
           ''">'' @ ToString (in_label input) @
           ''</label>\<newline>      </p>\<newline>    ''
      else ''undefined'')\<close>

definition options_of :: "descriptor \<Rightarrow> select_option list" where
  "options_of input = (case in_options input of None \<Rightarrow> [] | Some os \<Rightarrow> os)"

text \<open>
  One option element; \<open>marked\<close> says whether it carries the \<^verbatim>\<open>selected\<close>
  attribute.
\<close>

definition option_element :: "bool \<Rightarrow> select_option \<Rightarrow> string" where
  \<open>option_element marked option =
     ''<option\<newline>          value="'' @
     (if truthy (opt_value option) then ToString (opt_value option) else []) @
     ''"\<newline>          '' @
     (if marked then ''selected'' else []) @
     ''\<newline>          '' @
     (if truthy (opt_disabled option) then ''disabled'' else []) @
     ''\<newline>        >\<newline>          '' @
     (if truthy (opt_name option) then ToString (opt_name option)
      else if truthy (opt_value option) then ToString (opt_value option)
      else []) @
     ''\<newline>        </option>''\<close>

text \<open>The markup of a select field up to its first option element.\<close>

definition select_head :: "descriptor \<Rightarrow> string" where
  \<open>select_head input =
     ''\<newline>      '' @ label_text input @
     ''\<newline>      <p>\<newline>        <select\<newline>          type="select"\<newline>          name="'' @
     ToString (in_name input) @
     ''"\<newline>          id="'' @ ToString (in_id input) @
     ''"\<newline>          value="'' @ ToString (in_value input) @
     ''"\<newline>          '' @ (if truthy (in_disabled input) then ''disabled'' else []) @
     ''\<newline>        />''\<close>

text \<open>The value a payload is, and whether it is a thenable.\<close>

fun payload_value :: "payload \<Rightarrow> jsval" where
  "payload_value (Value v) = v"
| "payload_value (Thenable obj f) = obj"

fun is_thenable :: "payload \<Rightarrow> bool" where
  "is_thenable (Value v) = False"
| "is_thenable (Thenable obj f) = True"

section \<open>Example inputs\<close>

definition world0 :: world where
  "world0 = \<lparr> opened = [], visible = False, defaultPrevented = False \<rparr>"

definition plain_descriptor :: descriptor where
  "plain_descriptor =
     \<lparr> in_id = JUndefined, in_name = JUndefined, in_fieldName = JUndefined,
       in_formatValue = FormatOther JUndefined, in_type = JUndefined,
       in_placeholder = JUndefined, in_value = JUndefined, in_maxLength = JUndefined,
       in_label = JUndefined, in_disabled = JUndefined, in_cols = JUndefined,
       in_rows = JUndefined, in_options = None \<rparr>"

text \<open>\<^verbatim>\<open>{ id: 'a', name: 'a', type: 'text' }\<close>\<close>

definition field_a :: descriptor where
  "field_a = plain_descriptor\<lparr> in_id := JStr ''a'', in_name := JStr ''a'', in_type := JStr ''text'' \<rparr>"

text \<open>\<^verbatim>\<open>{ name: 'b', type: 'text' }\<close>\<close>

definition field_without_id :: descriptor where
  "field_without_id = plain_descriptor\<lparr> in_name := JStr ''b'', in_type := JStr ''text'' \<rparr>"

text \<open>
  \<^verbatim>\<open>{ id: 'c', name: 'c', type: 'select', value: 'y',
     options: [{ value: 'x', name: 'X' }, { value: 'y', name: 'Y' }] }\<close>
\<close>

definition option_x :: select_option where
  "option_x = \<lparr> opt_value = JStr ''x'', opt_name = JStr ''X'', opt_disabled = JUndefined \<rparr>"

definition option_y :: select_option where
  "option_y = \<lparr> opt_value = JStr ''y'', opt_name = JStr ''Y'', opt_disabled = JUndefined \<rparr>"

definition select_c :: descriptor where
  "select_c =
     plain_descriptor\<lparr> in_id := JStr ''c'', in_name := JStr ''c'', in_type := JStr ''select'',
       in_value := JStr ''y'', in_options := Some [option_x, option_y] \<rparr>"

definition no_options :: prompt_options where
  "no_options =
     \<lparr> po_titleText = JUndefined, po_html = JUndefined, po_text = JUndefined,
       po_inputs = None, po_validations = None \<rparr>"

text \<open>\<^verbatim>\<open>{ inputs: [{ id: 'a', name: 'a', type: 'text' }, { name: 'b', type: 'text' }] }\<close>\<close>

definition mixed_options :: prompt_options where
  "mixed_options = no_options\<lparr> po_inputs := Some [Some field_a, Some field_without_id] \<rparr>"

text \<open>\<^verbatim>\<open>{ inputs: [null, { name: 'b', type: 'text' }] }\<close>\<close>

definition invalid_options :: prompt_options where
  "invalid_options = no_options\<lparr> po_inputs := Some [None, Some field_without_id] \<rparr>"

text \<open>A document whose only element has id \<^verbatim>\<open>a\<close> and the given value.\<close>

definition doc_a :: "jsval \<Rightarrow> document" where
  "doc_a v = Map.empty(''a'' \<mapsto> \<lparr> el_value = v \<rparr>)"

text \<open>Payloads: \<^verbatim>\<open>Promise.resolve(7)\<close>, and an ordinary object.\<close>

definition promise_of_7 :: payload where
  "promise_of_7 = Thenable (JObj 1 ''[object Promise]'') (Fulfils (JNum 7))"

definition loaded_rows :: payload where
  "loaded_rows = Value (JObj 2 ''[object Object]'')"

text \<open>Outcomes: cancelled, dismissed by the close button, and confirmed with a value.\<close>

definition cancelled :: outcome where
  "cancelled = \<lparr> out_value = JUndefined, out_dismiss = JStr ''cancel'' \<rparr>"

definition closed_by_button :: outcome where
  "closed_by_button = \<lparr> out_value = JUndefined, out_dismiss = JStr ''close'' \<rparr>"

definition confirmed :: outcome where
  "confirmed = \<lparr> out_value = JBool True, out_dismiss = JUndefined \<rparr>"

definition sure_defaults :: sure_options where
  "sure_defaults =
     \<lparr> so_ev = NoEvent, so_titleText = JUndefined, so_type = JUndefined, so_text = JUndefined,
       so_confirmButtonText = JUndefined, so_cancelButtonText = JUndefined,
       so_showCancelButton = JUndefined, so_showCloseButton = JUndefined,
       so_returnBool = JUndefined \<rparr>"

text \<open>
  The rule \<^verbatim>\<open>{ id: 'a', validate: el => el.value.length > 0, messageOnFail: 'required' }\<close>,
  its \<^verbatim>\<open>validate\<close> taken on string values.
\<close>

definition required_rule :: validation where
  "required_rule =
     \<lparr> v_id = JStr ''a'', v_name = JUndefined,
       v_validate = (\<lambda>el. case el_value el of JStr s \<Rightarrow> JBool (0 < length s) | _ \<Rightarrow> JBool False),
       v_messageOnFail = JStr ''required'' \<rparr>"

declare validation_loop.simps [simp del]
declare string_of_nat.simps [simp del]

section \<open>Auxiliary facts\<close>

lemma validInputs_of_filter:
  "validInputs_of inputs = map the (filter has_id_and_name inputs)"
proof (induction inputs)
  case Nil
  show ?case by simp
next
  case (Cons e es)
  then show ?case by (cases e) simp_all
qed

lemma truthy_default_to_falsy:
  "\<not> truthy d \<Longrightarrow> truthy (default_to d v) = truthy v"
  by (cases v) (simp_all add: default_to_def)

lemma lead_in_eq:
  "ToString (js_or (js_or (default_to (JStr []) (po_html opts))
                          (default_to (JStr []) (po_text opts))) (JStr [])) = lead_in opts"
  by (simp add: js_or_def lead_in_def default_to_def)

lemma rule_messages_absent:
  "getElementById doc (v_id rule) = None \<Longrightarrow>
   rule_messages doc rule =
     [JStr (''Field '' @ ToString (js_or (v_name rule) (JStr [])) @
            '' must not be empty.'' @ [CHR 0x0D, CHR 0x0A])]"
  by (simp add: rule_messages_def getElementById_def js_or_def)

lemma rule_messages_present:
  "getElementById doc (v_id rule) = Some el \<Longrightarrow>
   rule_messages doc rule = (if truthy (v_validate rule el) then [] else [v_messageOnFail rule])"
  by (simp add: rule_messages_def getElementById_def)

text \<open>
  The loop, entered at index \<open>i\<close>, appends the messages of the rules from \<open>i\<close> on,
  in list order.
\<close>

lemma validation_loop_from:
  "i \<le> length validations \<Longrightarrow>
   validation_loop validations doc i errors =
     errors @ concat (map (rule_messages doc) (drop i validations))"
proof (induction validations doc i errors rule: validation_loop.induct)
  case (1 validations doc i errors)
  show ?case
  proof (cases "i < length validations")
    case False
    with "1.prems" show ?thesis
      by (simp add: validation_loop.simps)
  next
    case True
    then have d: "drop i validations = validations ! i # drop (Suc i) validations"
      by (simp add: Cons_nth_drop_Suc)
    from True have le: "i + 1 \<le> length validations" by simp
    show ?thesis
    proof (cases "getElementById doc (v_id (validations ! i))")
      case None
      from "1.IH"(1)[OF True refl refl None le] None True d show ?thesis
        by (subst validation_loop.simps)
           (simp add: rule_messages_absent)
    next
      case (Some el)
      show ?thesis
      proof (cases "truthy (v_validate (validations ! i) el)")
        case t: True
        from "1.IH"(3)[OF True refl refl Some _ le] Some True d t show ?thesis
          by (subst validation_loop.simps)
             (simp add: rule_messages_present)
      next
        case f: False
        from "1.IH"(2)[OF True refl refl Some f le] Some True d f show ?thesis
          by (subst validation_loop.simps)
             (simp add: rule_messages_present)
      qed
    qed
  qed
qed

lemma label_text_eq:
  \<open>ToString (if truthy (in_label input)
             then JStr (''\<newline>      <p class="marg-top-20">\<newline>        <label htmlFor="'' @
                        ToString (js_or (in_id input) (JStr '''')) @
                        ''">'' @
                        ToString (in_label input) @
                        ''</label>\<newline>      </p>\<newline>    '')
             else JUndefined) = label_text input\<close>
  by (simp add: label_text_def js_or_def)

lemma option_element_eq:
  \<open>''<option\<newline>          value="'' @
    ToString (js_or (opt_value option) (JStr '''')) @
    ''"\<newline>          '' @
    (if marked then ''selected'' else '''') @
    ''\<newline>          '' @
    (if truthy (opt_disabled option) then ''disabled'' else '''') @
    ''\<newline>        >\<newline>          '' @
    ToString (js_or (js_or (opt_name option) (opt_value option)) (JStr '''')) @
    ''\<newline>        </option>'' = option_element marked option\<close>
  by (simp add: option_element_def js_or_def)

lemma select_markup:
  assumes "in_type input = JStr ''select''"
  shows "getInputHtmlforPrompt input =
           select_head input @
           concat (map (\<lambda>option.
                     option_element (strict_equals (in_value input) (opt_value option)) option)
                   (options_of input)) @
           ''</select>\<newline>      </p>\<newline>    ''"
  unfolding getInputHtmlforPrompt_def Let_def label_text_eq option_element_eq
  using assms by (simp add: select_head_def options_of_def)

text \<open>The text-like branch, with its three value-carrying attributes set apart.\<close>

lemma text_like_markup:
  assumes "\<not> strict_equals (in_type input) (JStr ''textarea'')"
    and "\<not> strict_equals (in_type input) (JStr ''select'')"
  shows \<open>getInputHtmlforPrompt input =
    (''\<newline>    '' @ label_text input @
     ''\<newline>    <p>\<newline>      <input\<newline>        type="'' @ ToString (in_type input) @
     ''"\<newline>        name="'' @ ToString (in_name input) @
     ''"\<newline>        id="'' @ ToString (in_id input) @ ''"\<newline>        '') @
    (''placeholder="'' @ ToString (in_placeholder input) @ ''"'') @
    ''\<newline>        '' @
    (''value="'' @ ToString (in_value input) @ ''"'') @
    ''\<newline>        '' @
    (''maxlength="'' @ ToString (in_maxLength input) @ ''"'') @
    ''\<newline>        '' @ (if truthy (in_disabled input) then ''disabled'' else []) @
    ''\<newline>      />\<newline>    </p>\<newline>  ''\<close>
  unfolding getInputHtmlforPrompt_def Let_def label_text_eq
  using assms by simp

lemma sublist_third: "sublist x (a @ b @ c @ x @ r)"
  using sublist_appendI[of x "a @ b @ c" r] by simp

lemma sublist_fifth: "sublist x (a @ b @ c @ d @ e @ x @ r)"
  using sublist_appendI[of x "a @ b @ c @ d @ e" r] by simp

text \<open>
  With every descriptor retained and its element in the document, the hook
  stores the live value, converted by \<^verbatim>\<open>formatValue\<close> when that is a function
  and as it is otherwise. So a \<^verbatim>\<open>formatValue\<close> that takes the string \<^verbatim>\<open>'42'\<close> to
  the number 42, as \<^verbatim>\<open>Number\<close> does, stores the number and not the string.
\<close>

lemma formatValue_applied_example:
  "fst (getResultsAfterValidations [Some (field_a\<lparr> in_formatValue := FormatFunction f \<rparr>)] []
          (JBool True) (doc_a (JStr ''42'')) None) =
     Resolved (ReturnData (Map.empty(''a'' \<mapsto> f (JStr ''42''))))"
  by (simp add: getResultsAfterValidations_def validation_loop.simps
        field_a_def plain_descriptor_def getElementById_def doc_a_def js_or_def Let_def)

lemma formatValue_not_a_function_example:
  "fst (getResultsAfterValidations [Some (field_a\<lparr> in_formatValue := FormatOther v \<rparr>)] []
          (JBool True) (doc_a (JStr ''42'')) None) =
     Resolved (ReturnData (Map.empty(''a'' \<mapsto> JStr ''42'')))"
  by (simp add: getResultsAfterValidations_def validation_loop.simps
        field_a_def plain_descriptor_def getElementById_def doc_a_def js_or_def Let_def)

text \<open>A thenable payload is adopted: the promise settles as the thenable does.\<close>

lemma hideDismissableLoadingNotice_adopts_thenable:
  "fst (hideDismissableLoadingNotice (Thenable obj (Fulfils v)) w) = Resolved v"
  "fst (hideDismissableLoadingNotice (Thenable obj (Rejects r)) w) = Rejected (Reason_Value r)"
  "fst (hideDismissableLoadingNotice (Thenable obj Never_settles) w) = Pending"
  by (simp_all add: hideDismissableLoadingNotice_def)

section \<open>Loading notice: the payload passes through\<close>

text \<open>
  C9, as stated: for every payload \<^verbatim>\<open>hideDismissableLoadingNotice\<close> resolves with
  exactly the value passed in. It fails at the payload \<^verbatim>\<open>Promise.resolve(7)\<close>: the
  returned promise adopts it and resolves with 7, not with the promise object.
\<close>

theorem hideDismissableLoadingNotice_thenable_counterexample:
  "fst (hideDismissableLoadingNotice promise_of_7 world0) = Resolved (JNum 7) \<and>
   payload_value promise_of_7 = JObj 1 ''[object Promise]'' \<and>
   fst (hideDismissableLoadingNotice promise_of_7 world0) \<noteq> Resolved (payload_value promise_of_7)"
  by (simp add: hideDismissableLoadingNotice_def promise_of_7_def)

text \<open>
  C9, amended. For every payload that is not a thenable,
  \<^verbatim>\<open>hideDismissableLoadingNotice\<close> closes the overlay (a no-op on the display when
  none is shown), opens no dialog, and resolves with exactly the value passed in.
\<close>

theorem hideDismissableLoadingNotice_passes_payload:
  assumes "\<not> is_thenable data"
  shows "hideDismissableLoadingNotice data w =
           (Resolved (payload_value data), w\<lparr> visible := False \<rparr>)"
  using assms
  by (cases data) (simp_all add: hideDismissableLoadingNotice_def sweetalert2_close_def)

theorem hideDismissableLoadingNotice_passes_payload_witness:
  "\<not> is_thenable loaded_rows \<and>
   hideDismissableLoadingNotice loaded_rows (world0\<lparr> visible := True \<rparr>) =
     (Resolved (JObj 2 ''[object Object]''), world0)"
proof -
  have h: "\<not> is_thenable loaded_rows"
    by (simp add: loaded_rows_def)
  from h hideDismissableLoadingNotice_passes_payload [OF h, of "world0\<lparr> visible := True \<rparr>"]
  show ?thesis by (simp add: loaded_rows_def world0_def)
qed

section \<open>Confirmation prompt\<close>

text \<open>
  C3. With \<^verbatim>\<open>returnBool\<close> set, \<^verbatim>\<open>promptAreYouSureBefore\<close> resolves \<^verbatim>\<open>true\<close>
  exactly when the outcome is non-null, its \<^verbatim>\<open>dismiss\<close> is falsy and its
  \<^verbatim>\<open>value\<close> is truthy, and \<^verbatim>\<open>false\<close> in every other case, so for every
  dismissal. With \<^verbatim>\<open>returnBool\<close> unset it resolves with the raw outcome.
\<close>

theorem promptAreYouSureBefore_returnBool:
  "(truthy (so_returnBool opts) \<longrightarrow>
      ((fst (promptAreYouSureBefore opts answer w) = Resolved (AsBool True)) =
         (\<exists>r. answer = Some r \<and> \<not> truthy (out_dismiss r) \<and> truthy (out_value r))) \<and>
      ((fst (promptAreYouSureBefore opts answer w) = Resolved (AsBool False)) =
         (\<not> (\<exists>r. answer = Some r \<and> \<not> truthy (out_dismiss r) \<and> truthy (out_value r)))) \<and>
      ((\<exists>r. answer = Some r \<and> truthy (out_dismiss r)) \<longrightarrow>
         fst (promptAreYouSureBefore opts answer w) = Resolved (AsBool False))) \<and>
   (\<not> truthy (so_returnBool opts) \<longrightarrow>
      fst (promptAreYouSureBefore opts answer w) = Resolved (RawResult answer))"
  by (cases answer) (auto simp: promptAreYouSureBefore_def Let_def truthy_default_to_falsy)

theorem promptAreYouSureBefore_returnBool_witness:
  "truthy (so_returnBool (sure_defaults\<lparr> so_returnBool := JBool True \<rparr>)) \<and>
   fst (promptAreYouSureBefore (sure_defaults\<lparr> so_returnBool := JBool True \<rparr>)
          (Some confirmed) world0) = Resolved (AsBool True) \<and>
   fst (promptAreYouSureBefore (sure_defaults\<lparr> so_returnBool := JBool True \<rparr>)
          (Some closed_by_button) world0) = Resolved (AsBool False) \<and>
   \<not> truthy (so_returnBool sure_defaults) \<and>
   fst (promptAreYouSureBefore sure_defaults (Some closed_by_button) world0) =
     Resolved (RawResult (Some closed_by_button))"
  using
    promptAreYouSureBefore_returnBool
      [of "sure_defaults\<lparr> so_returnBool := JBool True \<rparr>" "Some confirmed" world0]
    promptAreYouSureBefore_returnBool
      [of "sure_defaults\<lparr> so_returnBool := JBool True \<rparr>" "Some closed_by_button" world0]
    promptAreYouSureBefore_returnBool [of sure_defaults "Some closed_by_button" world0]
  by (simp add: sure_defaults_def confirmed_def closed_by_button_def)

section \<open>Input prompt: filtering, rendering and the outcome\<close>

text \<open>
  C2. When no entry of the descriptor list has both a truthy id and a truthy
  name, \<^verbatim>\<open>getPromptedUserInput\<close> rejects with the string
  \<^verbatim>\<open>'No valid inputs passed to getPromptedUserInput().'\<close> and leaves the widget
  untouched: no dialog is opened.
\<close>

theorem getPromptedUserInput_no_valid_inputs:
  assumes "\<forall>e \<in> set (inputs_of opts). \<not> has_id_and_name e"
  shows "getPromptedUserInput opts answer w =
           (Rejected (Reason_String ''No valid inputs passed to getPromptedUserInput().''), w)"
proof -
  from assms have "filter has_id_and_name (inputs_of opts) = []"
    by (simp add: filter_empty_conv)
  then have "validInputs_of (inputs_of opts) = []"
    by (simp add: validInputs_of_filter)
  then show ?thesis
    by (simp add: getPromptedUserInput_def inputs_of_def Let_def)
qed

theorem getPromptedUserInput_no_valid_inputs_witness:
  "filter has_id_and_name (inputs_of invalid_options) = [] \<and>
   getPromptedUserInput invalid_options (Some confirmed) world0 =
     (Rejected (Reason_String ''No valid inputs passed to getPromptedUserInput().''), world0)"
proof -
  have h: "\<forall>e \<in> set (inputs_of invalid_options). \<not> has_id_and_name e"
    by (simp add: inputs_of_def invalid_options_def no_options_def field_without_id_def
          plain_descriptor_def)
  from h getPromptedUserInput_no_valid_inputs [OF h, of "Some confirmed" world0]
  show ?thesis by (simp add: filter_empty_conv)
qed

text \<open>
  C4. Once a dialog is shown (some entry has both id and name), an outcome whose
  \<^verbatim>\<open>dismiss\<close> is truthy or whose \<^verbatim>\<open>value\<close> is falsy makes
  \<^verbatim>\<open>getPromptedUserInput\<close> reject with the error \<^verbatim>\<open>'stop-execution'\<close>, and an
  outcome confirmed with a truthy value makes it resolve with that value;
  \<^verbatim>\<open>promptAreYouSureBefore\<close> resolves for every outcome and never rejects.
\<close>

theorem getPromptedUserInput_outcome:
  "(filter has_id_and_name (inputs_of opts) \<noteq> [] \<and>
      (truthy (out_dismiss r) \<or> \<not> truthy (out_value r)) \<longrightarrow>
        fst (getPromptedUserInput opts (Some r) w) = Rejected (Thrown_Error ''stop-execution'')) \<and>
   (\<exists>v. fst (promptAreYouSureBefore sopts answer w) = Resolved v) \<and>
   (filter has_id_and_name (inputs_of opts) \<noteq> [] \<and>
      \<not> truthy (out_dismiss r) \<and> truthy (out_value r) \<longrightarrow>
        fst (getPromptedUserInput opts (Some r) w) = Resolved (out_value r))"
proof -
  have sure: "\<exists>v. fst (promptAreYouSureBefore sopts answer w) = Resolved v"
    by (simp add: promptAreYouSureBefore_def Let_def)
  have prompt:
    "fst (getPromptedUserInput opts (Some r) w) =
       (if truthy (out_dismiss r) \<or> \<not> truthy (out_value r)
        then Rejected (Thrown_Error ''stop-execution'')
        else Resolved (out_value r))"
    if "filter has_id_and_name (inputs_of opts) \<noteq> []"
  proof -
    from that have "validInputs_of (inputs_of opts) \<noteq> []"
      by (simp add: validInputs_of_filter)
    then obtain first others where "validInputs_of (inputs_of opts) = first # others"
      by (cases "validInputs_of (inputs_of opts)") auto
    then show ?thesis
      by (simp add: getPromptedUserInput_def inputs_of_def Let_def)
  qed
  from sure prompt show ?thesis by simp
qed

theorem getPromptedUserInput_outcome_witness:
  "filter has_id_and_name (inputs_of mixed_options) \<noteq> [] \<and>
   truthy (out_dismiss cancelled) \<and>
   fst (getPromptedUserInput mixed_options (Some cancelled) world0) =
     Rejected (Thrown_Error ''stop-execution'') \<and>
   \<not> truthy (out_dismiss confirmed) \<and> truthy (out_value confirmed) \<and>
   fst (getPromptedUserInput mixed_options (Some confirmed) world0) = Resolved (JBool True)"
  using getPromptedUserInput_outcome [of mixed_options cancelled world0 sure_defaults None]
    getPromptedUserInput_outcome [of mixed_options confirmed world0 sure_defaults None]
  by (simp add: inputs_of_def mixed_options_def no_options_def field_a_def
        field_without_id_def plain_descriptor_def cancelled_def confirmed_def)

text \<open>
  C5. When some entry has both id and name, \<^verbatim>\<open>getPromptedUserInput\<close> opens one
  dialog whose body is the lead-in (html, else text, else nothing), the separator
  \<^verbatim>\<open><br/><br/>\<close>, and then one field block per entry with id and name, in the
  order of the list; the other entries contribute nothing.
\<close>

theorem getPromptedUserInput_body_markup:
  assumes "filter has_id_and_name (inputs_of opts) \<noteq> []"
  shows "map swal_html (opened (snd (getPromptedUserInput opts answer w))) =
           map swal_html (opened w) @
           [JStr (lead_in opts @ ''<br/><br/>'' @
                  concat (map getInputHtmlforPrompt
                            (map the (filter has_id_and_name (inputs_of opts)))))]"
proof -
  from assms have "validInputs_of (inputs_of opts) \<noteq> []"
    by (simp add: validInputs_of_filter)
  then obtain first others where v: "validInputs_of (inputs_of opts) = first # others"
    by (cases "validInputs_of (inputs_of opts)") auto
  from v have "map swal_html (opened (snd (getPromptedUserInput opts answer w))) =
           map swal_html (opened w) @
           [JStr (lead_in opts @ ''<br/><br/>'' @
                  concat (map getInputHtmlforPrompt (validInputs_of (inputs_of opts))))]"
    by (cases answer)
       (simp_all add: getPromptedUserInput_def inputs_of_def Let_def sweetalert2_def
          lead_in_eq no_config_def)
  then show ?thesis
    by (simp only: validInputs_of_filter)
qed

theorem getPromptedUserInput_body_markup_witness:
  "filter has_id_and_name (inputs_of (mixed_options\<lparr> po_text := JStr ''Please fill in:'' \<rparr>)) \<noteq> [] \<and>
   map swal_html
     (opened (snd (getPromptedUserInput (mixed_options\<lparr> po_text := JStr ''Please fill in:'' \<rparr>)
                     (Some confirmed) world0))) =
     [JStr (''Please fill in:<br/><br/>'' @ getInputHtmlforPrompt field_a)]"
  using getPromptedUserInput_body_markup
      [of "mixed_options\<lparr> po_text := JStr ''Please fill in:'' \<rparr>" "Some confirmed" world0]
  by (simp add: inputs_of_def mixed_options_def no_options_def field_a_def
        field_without_id_def plain_descriptor_def world0_def lead_in_def)

section \<open>Input prompt: the field renderer\<close>

text \<open>
  C6. For a descriptor of type \<^verbatim>\<open>select\<close> the markup holds one option element per
  entry of \<^verbatim>\<open>options\<close>, in order, and an element carries the \<^verbatim>\<open>selected\<close>
  attribute exactly when the descriptor's value \<^verbatim>\<open>===\<close> the option's value; when
  no option's value equals it, no element carries the attribute.
\<close>

theorem select_options_marked:
  assumes "in_type input = JStr ''select''"
  shows "getInputHtmlforPrompt input =
           select_head input @
           concat (map (\<lambda>option.
                     option_element (strict_equals (in_value input) (opt_value option)) option)
                   (options_of input)) @
           ''</select>\<newline>      </p>\<newline>    '' \<and>
         ((\<forall>option \<in> set (options_of input).
              \<not> strict_equals (in_value input) (opt_value option)) \<longrightarrow>
            getInputHtmlforPrompt input =
              select_head input @
              concat (map (option_element False) (options_of input)) @
              ''</select>\<newline>      </p>\<newline>    '')"
proof (intro conjI impI)
  show "getInputHtmlforPrompt input =
          select_head input @
          concat (map (\<lambda>option.
                    option_element (strict_equals (in_value input) (opt_value option)) option)
                  (options_of input)) @
          ''</select>\<newline>      </p>\<newline>    ''"
    by (rule select_markup[OF assms])
next
  assume none: "\<forall>option \<in> set (options_of input).
                  \<not> strict_equals (in_value input) (opt_value option)"
  then have "map (\<lambda>option.
               option_element (strict_equals (in_value input) (opt_value option)) option)
          (options_of input) = map (option_element False) (options_of input)"
    by (intro map_cong) auto
  with select_markup[OF assms]
  show "getInputHtmlforPrompt input =
          select_head input @
          concat (map (option_element False) (options_of input)) @
          ''</select>\<newline>      </p>\<newline>    ''"
    by simp
qed

theorem select_options_marked_witness:
  "in_type select_c = JStr ''select'' \<and>
   getInputHtmlforPrompt select_c =
     select_head select_c @ option_element False option_x @ option_element True option_y @
     ''</select>\<newline>      </p>\<newline>    '' \<and>
   filter (\<lambda>option. strict_equals (in_value (select_c\<lparr> in_value := JStr ''z'' \<rparr>))
                      (opt_value option))
     (options_of (select_c\<lparr> in_value := JStr ''z'' \<rparr>)) = [] \<and>
   getInputHtmlforPrompt (select_c\<lparr> in_value := JStr ''z'' \<rparr>) =
     select_head (select_c\<lparr> in_value := JStr ''z'' \<rparr>) @
     option_element False option_x @ option_element False option_y @
     ''</select>\<newline>      </p>\<newline>    ''"
  using select_options_marked [of select_c]
    select_options_marked [of "select_c\<lparr> in_value := JStr ''z'' \<rparr>"]
  by (simp add: select_c_def plain_descriptor_def options_of_def option_x_def option_y_def)

text \<open>
  C7, at the descriptor \<^verbatim>\<open>{ id: 'a', name: 'a', type: 'text' }\<close>, whose label is
  unset. The claim has the markup free of label content there; the renderer puts
  the text \<^verbatim>\<open>undefined\<close> where the label block would stand.
\<close>

theorem unset_label_renders_undefined:
  \<open>getInputHtmlforPrompt field_a =
     ''\<newline>    undefined\<newline>    <p>\<newline>      <input\<newline>        type="text"\<newline>        name="a"\<newline>        id="a"\<newline>        placeholder="undefined"\<newline>        value="undefined"\<newline>        maxlength="undefined"\<newline>        \<newline>      />\<newline>    </p>\<newline>  ''\<close>
  by (simp add: getInputHtmlforPrompt_def field_a_def plain_descriptor_def)

text \<open>
  C10. For a descriptor whose type is neither \<^verbatim>\<open>textarea\<close> nor \<^verbatim>\<open>select\<close>, an
  unset \<^verbatim>\<open>placeholder\<close>, \<^verbatim>\<open>value\<close> or \<^verbatim>\<open>maxLength\<close> is interpolated as it
  is: the markup contains \<^verbatim>\<open>placeholder="undefined"\<close>, \<^verbatim>\<open>value="undefined"\<close> or
  \<^verbatim>\<open>maxlength="undefined"\<close> respectively.
\<close>

theorem unset_attributes_render_undefined:
  assumes "\<not> strict_equals (in_type input) (JStr ''textarea'')"
    and "\<not> strict_equals (in_type input) (JStr ''select'')"
  shows \<open>(in_placeholder input = JUndefined \<longrightarrow>
            sublist ''placeholder="undefined"'' (getInputHtmlforPrompt input)) \<and>
         (in_value input = JUndefined \<longrightarrow>
            sublist ''value="undefined"'' (getInputHtmlforPrompt input)) \<and>
         (in_maxLength input = JUndefined \<longrightarrow>
            sublist ''maxlength="undefined"'' (getInputHtmlforPrompt input))\<close>
proof (intro conjI impI)
  assume "in_placeholder input = JUndefined"
  then have \<open>''placeholder="'' @ ToString (in_placeholder input) @ ''"'' = ''placeholder="undefined"''\<close>
    by simp
  then show \<open>sublist ''placeholder="undefined"'' (getInputHtmlforPrompt input)\<close>
    unfolding text_like_markup[OF assms] by (simp only: sublist_appendI)
next
  assume "in_value input = JUndefined"
  then have \<open>''value="'' @ ToString (in_value input) @ ''"'' = ''value="undefined"''\<close>
    by simp
  then show \<open>sublist ''value="undefined"'' (getInputHtmlforPrompt input)\<close>
    unfolding text_like_markup[OF assms] by (simp only: sublist_third)
next
  assume "in_maxLength input = JUndefined"
  then have \<open>''maxlength="'' @ ToString (in_maxLength input) @ ''"'' = ''maxlength="undefined"''\<close>
    by simp
  then show \<open>sublist ''maxlength="undefined"'' (getInputHtmlforPrompt input)\<close>
    unfolding text_like_markup[OF assms] by (simp only: sublist_fifth)
qed

theorem unset_attributes_render_undefined_witness:
  \<open>\<not> strict_equals (in_type field_a) (JStr ''textarea'') \<and>
   \<not> strict_equals (in_type field_a) (JStr ''select'') \<and>
   in_placeholder field_a = JUndefined \<and>
   in_value field_a = JUndefined \<and>
   in_maxLength field_a = JUndefined \<and>
   sublist ''placeholder="undefined"'' (getInputHtmlforPrompt field_a) \<and>
   sublist ''value="undefined"'' (getInputHtmlforPrompt field_a) \<and>
   sublist ''maxlength="undefined"'' (getInputHtmlforPrompt field_a)\<close>
  using unset_attributes_render_undefined [of field_a]
  by (simp add: field_a_def plain_descriptor_def)

section \<open>Input prompt: the pre-confirmation hook\<close>

text \<open>
  C8. On a confirmation attempt the rules are processed in list order: a rule
  whose element is absent records \<^verbatim>\<open>Field <name> must not be empty.\<close> (followed
  by a line break), a rule whose \<^verbatim>\<open>validate(element)\<close> is falsy records its
  \<^verbatim>\<open>messageOnFail\<close>. If any message was recorded, the joined messages are shown
  as the validation error and the hook hands back the argument it was called
  with, not an aggregated result.
\<close>

theorem validation_failure_reported:
  "validation_loop validations doc 0 [] = concat (map (rule_messages doc) validations) \<and>
   (concat (map (rule_messages doc) validations) \<noteq> [] \<longrightarrow>
      getResultsAfterValidations inputs validations result doc shown =
        (Resolved (Passthrough result),
         Some (js_join (concat (map (rule_messages doc) validations)))))"
  by (simp add: validation_loop_from getResultsAfterValidations_def Let_def)

theorem validation_failure_reported_witness:
  "concat (map (rule_messages (doc_a (JStr ''''))) [required_rule]) \<noteq> [] \<and>
   validation_loop [required_rule] (doc_a (JStr '''')) 0 [] = [JStr ''required''] \<and>
   getResultsAfterValidations [Some field_a] [required_rule] (JBool True) (doc_a (JStr '''')) None =
     (Resolved (Passthrough (JBool True)), Some ''required'') \<and>
   getResultsAfterValidations [Some field_a]
       [required_rule\<lparr> v_id := JStr ''age'', v_name := JStr ''Age'' \<rparr>, required_rule]
       (JBool True) (doc_a (JStr '''')) None =
     (Resolved (Passthrough (JBool True)),
      Some (''Field Age must not be empty.'' @ [CHR 0x0D, CHR 0x0A] @ ''required''))"
  using validation_failure_reported
      [of "[required_rule]" "doc_a (JStr '''')" "[Some field_a]" "JBool True" None]
    validation_failure_reported
      [of "[required_rule\<lparr> v_id := JStr ''age'', v_name := JStr ''Age'' \<rparr>, required_rule]"
          "doc_a (JStr '''')" "[Some field_a]" "JBool True" None]
  by (simp add: rule_messages_def required_rule_def doc_a_def js_join_def)

text \<open>
  C1, at \<^verbatim>\<open>inputs: [{ id: 'a', name: 'a', type: 'text' }, { name: 'b', type: 'text' }]\<close>
  with no rules and a document holding element \<^verbatim>\<open>a\<close> with value \<^verbatim>\<open>'x'\<close>. The
  claim has the hook iterate the retained descriptors, here the first one alone,
  and resolve with \<^verbatim>\<open>{ a: 'x' }\<close>. The hook registered with the dialog is built
  from the unfiltered list: it also visits the second descriptor, finds no
  element for it and rejects with a \<^verbatim>\<open>TypeError\<close>. Built from the retained
  descriptors, it would resolve as the claim says.
\<close>

theorem hook_reads_unfiltered_inputs:
  "map (\<lambda>cfg. map_option (\<lambda>hook. fst (hook (JBool True) (doc_a (JStr ''x'')) None))
                 (swal_preConfirm cfg))
     (opened (snd (getPromptedUserInput mixed_options (Some confirmed) world0))) =
     [Some (Rejected Thrown_TypeError)] \<and>
   validInputs_of (inputs_of mixed_options) = [field_a] \<and>
   fst (getResultsAfterValidations [Some field_a] [] (JBool True) (doc_a (JStr ''x'')) None) =
     Resolved (ReturnData (Map.empty(''a'' \<mapsto> JStr ''x'')))"
  by (simp add: getPromptedUserInput_def mixed_options_def no_options_def inputs_of_def
        field_a_def field_without_id_def plain_descriptor_def world0_def confirmed_def
        sweetalert2_def no_config_def getResultsAfterValidations_def validation_loop.simps
        getElementById_def doc_a_def js_or_def default_to_def Let_def)

end
